theory Spec2Isabelle
  imports Complex_Main
begin

section \<open>Python values used by the wrapper\<close>

text \<open>
  The wrapper (\<^verbatim>\<open>subagent_template.py\<close>) handles three kinds of data: text, the values
  that \<^verbatim>\<open>json.loads\<close> returns, and the result dictionary it builds.  A decoded JSON
  value is a \<open>json\<close>; Python's \<^verbatim>\<open>None\<close> is \<open>JNull\<close>.  An object is an association list
  read with \<open>map_of\<close>.  Finite floats are rationals; the non-standard literals
  \<^verbatim>\<open>NaN\<close> and \<^verbatim>\<open>Infinity\<close> are not represented.  Text is a \<open>string\<close>.
\<close>

datatype json =
    JNull
  | JBool bool
  | JInt int
  | JFloat rat
  | JStr string
  | JArr "json list"
  | JObj "(string \<times> json) list"

text \<open>
  The exceptions that occur.  \<open>SliceOfDict\<close> is what \<^verbatim>\<open>d[:n]\<close> raises on a dict:
  \<^verbatim>\<open>TypeError\<close> before Python 3.12, \<^verbatim>\<open>KeyError\<close> from then on.
\<close>

datatype py_exn =
    ValueError string
  | TypeError
  | AttributeError string
  | SliceOfDict

text \<open>Python truthiness, as used by \<^verbatim>\<open>or\<close>, \<^verbatim>\<open>if x\<close> and \<^verbatim>\<open>not x\<close>.\<close>

fun truthy :: "json \<Rightarrow> bool" where
  "truthy JNull = False"
| "truthy (JBool b) = b"
| "truthy (JInt i) = (i \<noteq> 0)"
| "truthy (JFloat r) = (r \<noteq> 0)"
| "truthy (JStr s) = (s \<noteq> [])"
| "truthy (JArr xs) = (xs \<noteq> [])"
| "truthy (JObj kvs) = (kvs \<noteq> [])"

text \<open>\<^verbatim>\<open>a or b\<close>.\<close>

definition py_or :: "json \<Rightarrow> json \<Rightarrow> json" where
  "py_or a b = (if truthy a then a else b)"

text \<open>
  Python's \<^verbatim>\<open>==\<close> on decoded JSON values.  Booleans and numbers compare by value
  (\<^verbatim>\<open>True == 1 == 1.0\<close>), lists element by element, and two objects are equal when they
  have the same keys and equal values under them; the decoder yields each key once.
\<close>

fun num_of :: "json \<Rightarrow> rat option" where
  "num_of (JBool b) = Some (if b then 1 else 0)"
| "num_of (JInt i) = Some (of_int i)"
| "num_of (JFloat r) = Some r"
| "num_of _ = None"

fun py_eq :: "json \<Rightarrow> json \<Rightarrow> bool" where
  "py_eq JNull JNull = True"
| "py_eq (JStr s) (JStr t) = (s = t)"
| "py_eq (JArr xs) (JArr ys) = list_all2 py_eq xs ys"
| "py_eq (JObj xs) (JObj ys) =
     (set (map fst xs) = set (map fst ys) \<and>
      (\<forall>(k, v) \<in> set xs. \<forall>(k', v') \<in> set ys. k = k' \<longrightarrow> py_eq v v'))"
| "py_eq a b = (case (num_of a, num_of b) of (Some x, Some y) \<Rightarrow> x = y | _ \<Rightarrow> False)"

text \<open>
  \<^verbatim>\<open>x.get(key, default)\<close>: only a dict has the method; on any other value the call
  raises \<^verbatim>\<open>AttributeError\<close>, whose text names the type.
\<close>

fun type_name :: "json \<Rightarrow> string" where
  "type_name JNull = ''NoneType''"
| "type_name (JBool _) = ''bool''"
| "type_name (JInt _) = ''int''"
| "type_name (JFloat _) = ''float''"
| "type_name (JStr _) = ''str''"
| "type_name (JArr _) = ''list''"
| "type_name (JObj _) = ''dict''"

definition no_get_msg :: "json \<Rightarrow> string" where
  "no_get_msg v = [CHR 0x27] @ type_name v @ [CHR 0x27] @ '' object has no attribute '' @
                  [CHR 0x27] @ ''get'' @ [CHR 0x27]"

fun py_get :: "json \<Rightarrow> string \<Rightarrow> json \<Rightarrow> py_exn + json" where
  "py_get (JObj kvs) k d = Inr (case map_of kvs k of None \<Rightarrow> d | Some v \<Rightarrow> v)"
| "py_get v k d = Inl (AttributeError (no_get_msg v))"

text \<open>\<^verbatim>\<open>str.strip()\<close> on ASCII text: the characters for which \<^verbatim>\<open>isspace\<close> holds.\<close>

definition py_isspace :: "char \<Rightarrow> bool" where
  "py_isspace c = (of_char c \<in> {9, 10, 11, 12, 13, 28, 29, 30, 31, 32 :: nat})"

definition strip :: "string \<Rightarrow> string" where
  "strip s = rev (dropWhile py_isspace (rev (dropWhile py_isspace s)))"

text \<open>\<^verbatim>\<open>str(n)\<close> for an integer, as an f-string renders it.\<close>

fun digits :: "nat \<Rightarrow> string" where
  "digits n = (if n < 10 then [''0123456789'' ! n]
               else digits (n div 10) @ [''0123456789'' ! (n mod 10)])"

definition str_int :: "int \<Rightarrow> string" where
  "str_int i = (if i < 0 then CHR ''-'' # digits (nat (- i)) else digits (nat i))"

section \<open>Small helpers of the source\<close>

text \<open>
  \<^verbatim>\<open>_safe_truncate(s, n)\<close>: \<^verbatim>\<open>if not s: return ""\<close>, then
  \<^verbatim>\<open>s[:n] + ("..." if len(s) > n else "")\<close>.  The parameter is annotated \<^verbatim>\<open>str\<close> but is
  called with whatever the result dictionary holds; slicing or concatenating a truthy
  value that is not text raises.
\<close>

fun safe_truncate :: "json \<Rightarrow> nat \<Rightarrow> py_exn + string" where
  "safe_truncate (JStr s) n =
     (if s = [] then Inr [] else Inr (take n s @ (if length s > n then ''...'' else [])))"
| "safe_truncate (JObj kvs) n = (if kvs = [] then Inr [] else Inl SliceOfDict)"
| "safe_truncate v n = (if truthy v then Inl TypeError else Inr [])"

text \<open>
  \<^verbatim>\<open>_build_env()\<close>.  \<open>env_or a b\<close> is \<^verbatim>\<open>a or b\<close> on two lookups: the first when it is
  a non-empty text, else the second.  Without a non-empty token the function raises
  \<^verbatim>\<open>ValueError\<close>.
\<close>

definition env_or :: "string option \<Rightarrow> string option \<Rightarrow> string option" where
  "env_or a b = (case a of Some s \<Rightarrow> (if s \<noteq> [] then Some s else b) | None \<Rightarrow> b)"

definition DEFAULT_BASE_URL :: string where
  "DEFAULT_BASE_URL = ''https://api.z.ai/api/anthropic''"

definition DEFAULT_API_TIMEOUT_MS :: string where
  "DEFAULT_API_TIMEOUT_MS = ''300000''"

definition missing_token_msg :: string where
  "missing_token_msg =
     ''Missing API token!'' @ [CHR 0x0A] @
     ''Set one of these environment variables:'' @ [CHR 0x0A] @
     ''  export ZAI_API_KEY='' @ [CHR 0x27] @ ''your-key-here'' @ [CHR 0x27, CHR 0x0A] @
     ''  export ANTHROPIC_AUTH_TOKEN='' @ [CHR 0x27] @ ''your-key-here'' @
       [CHR 0x27, CHR 0x0A, CHR 0x0A] @
     ''Get your API key from: https://z.ai/subscribe''"

definition build_env :: "(string \<rightharpoonup> string) \<Rightarrow> py_exn + (string \<rightharpoonup> string)" where
  "build_env env =
     (case env_or (env ''ANTHROPIC_AUTH_TOKEN'') (env ''ZAI_API_KEY'') of
        None \<Rightarrow> Inl (ValueError missing_token_msg)
      | Some token \<Rightarrow>
          if token = [] then Inl (ValueError missing_token_msg) else
          (let env1 = env(''ANTHROPIC_AUTH_TOKEN'' \<mapsto> token);
               url = (case env_or (env_or (env1 ''ANTHROPIC_BASE_URL'') (env1 ''ZAI_BASE_URL''))
                                  (Some DEFAULT_BASE_URL) of
                        Some u \<Rightarrow> u | None \<Rightarrow> DEFAULT_BASE_URL);
               env2 = env1(''ANTHROPIC_BASE_URL'' \<mapsto> url);
               env3 = (case env2 ''API_TIMEOUT_MS'' of
                         None \<Rightarrow> env2(''API_TIMEOUT_MS'' \<mapsto> DEFAULT_API_TIMEOUT_MS)
                       | Some _ \<Rightarrow> env2)
           in Inr env3))"

section \<open>The output drain: \<^verbatim>\<open>read_stdout\<close>\<close>

text \<open>
  The reader thread owns two markers, \<^verbatim>\<open>final_result_event\<close> and
  \<^verbatim>\<open>last_tool_name_printed\<close> (both start as \<^verbatim>\<open>None\<close>), appends to the log files and
  writes notifications to the console.  The logs are kept as the list of lines written.
\<close>

datatype notice = ToolNotice json | CompleteNotice

record drain_state =
  stdout_log :: "string list"
  stream_log :: "string list"
  final_result_event :: json
  last_tool_name_printed :: json
  console :: "notice list"

definition drain_init :: drain_state where
  "drain_init = \<lparr>stdout_log = [], stream_log = [], final_result_event = JNull,
                 last_tool_name_printed = JNull, console = []\<rparr>"

text \<open>Lines 237 to 241: the line goes to the logs before anything else is done with it.\<close>

definition log_line :: "bool \<Rightarrow> string \<Rightarrow> drain_state \<Rightarrow> drain_state" where
  "log_line stream_progress line st =
     st\<lparr>stdout_log := stdout_log st @ [line],
        stream_log := (if stream_progress then stream_log st @ [line] else stream_log st)\<rparr>"

text \<open>The value of \<^verbatim>\<open>d.get(k, default)\<close> when \<open>d\<close> is known to be a dict.\<close>

definition dict_get :: "(string \<times> json) list \<Rightarrow> string \<Rightarrow> json \<Rightarrow> json" where
  "dict_get kvs k d = (case map_of kvs k of None \<Rightarrow> d | Some v \<Rightarrow> v)"

text \<open>Lines 256 to 262: one content block.\<close>

definition on_block :: "drain_state \<Rightarrow> json \<Rightarrow> drain_state" where
  "on_block st block =
     (case block of
        JObj kvs \<Rightarrow>
          if py_eq (dict_get kvs ''type'' JNull) (JStr ''tool_use'') then
            (let tool_name = py_or (dict_get kvs ''name'' JNull) (JStr ''tool'')
             in if \<not> py_eq tool_name (last_tool_name_printed st)
                then st\<lparr>last_tool_name_printed := tool_name,
                        console := console st @ [ToolNotice tool_name]\<rparr>
                else st)
          else st
      | _ \<Rightarrow> st)"

text \<open>
  \<^verbatim>\<open>for block in content\<close>: a list gives its elements, a string its characters, a dict
  its keys; any other value is not iterable.
\<close>

fun py_iter :: "json \<Rightarrow> py_exn + json list" where
  "py_iter (JArr xs) = Inr xs"
| "py_iter (JStr s) = Inr (map (\<lambda>c. JStr [c]) s)"
| "py_iter (JObj kvs) = Inr (map (\<lambda>kv. JStr (fst kv)) kvs)"
| "py_iter v = Inl TypeError"

text \<open>Lines 253 to 266: one decoded event.\<close>

definition on_event :: "json \<Rightarrow> drain_state \<Rightarrow> py_exn + drain_state" where
  "on_event event st =
     (case py_get event ''type'' (JStr []) of
        Inl e \<Rightarrow> Inl e
      | Inr etype \<Rightarrow>
          if py_eq etype (JStr ''assistant'') then
            (case py_get event ''message'' (JObj []) of
               Inl e \<Rightarrow> Inl e
             | Inr message \<Rightarrow>
                 (case py_get message ''content'' (JArr []) of
                    Inl e \<Rightarrow> Inl e
                  | Inr content \<Rightarrow>
                      (case py_iter content of
                         Inl e \<Rightarrow> Inl e
                       | Inr blocks \<Rightarrow> Inr (foldl on_block st blocks))))
          else if py_eq etype (JStr ''result'') then
            Inr (st\<lparr>final_result_event := event, console := console st @ [CompleteNotice]\<rparr>)
          else Inr st)"

text \<open>
  Lines 244 to 251: in streaming mode the stripped line is decoded; \<open>loads\<close> stands for
  \<^verbatim>\<open>json.loads\<close>, with \<open>None\<close> for \<^verbatim>\<open>JSONDecodeError\<close>.
\<close>

definition parse_line :: "(string \<Rightarrow> json option) \<Rightarrow> bool \<Rightarrow> string \<Rightarrow> drain_state
                         \<Rightarrow> py_exn + drain_state" where
  "parse_line loads stream_progress line st =
     (if stream_progress then
        (let line_stripped = strip line
         in if line_stripped = [] then Inr st
            else (case loads line_stripped of
                    None \<Rightarrow> Inr st
                  | Some event \<Rightarrow> on_event event st))
      else Inr st)"

text \<open>
  The loop \<^verbatim>\<open>for line in proc.stdout\<close>.  An exception that is not caught inside the loop
  ends the thread: the result is the state reached and the exception, and the lines
  after it are never read.
\<close>

fun read_stdout :: "(string \<Rightarrow> json option) \<Rightarrow> bool \<Rightarrow> string list \<Rightarrow> drain_state
                      \<Rightarrow> drain_state \<times> py_exn option" where
  "read_stdout loads stream_progress [] st = (st, None)"
| "read_stdout loads stream_progress (line # rest) st =
     (case parse_line loads stream_progress line (log_line stream_progress line st) of
        Inl e \<Rightarrow> (log_line stream_progress line st, Some e)
      | Inr st' \<Rightarrow> read_stdout loads stream_progress rest st')"

section \<open>The environment of a run\<close>

text \<open>
  Everything the wrapper observes from outside is a field of \<open>world\<close>: the ambient
  environment variables, whether \<^verbatim>\<open>Popen\<close> and the opening of the log files succeed, what
  the child writes, what the \<open>i\<close>-th pass of the polling loop sees (\<^verbatim>\<open>proc.poll()\<close> and
  the seconds elapsed), how the child answers the signals, how far the reader thread
  has come when the supervisor stops waiting for it (\<^verbatim>\<open>reader.join(timeout=2)\<close>), and
  whether the log files still exist when they are read back.  Library calls that the
  source does not guard (creating the log directory, printing) are taken to succeed.
\<close>

datatype launch_result = Launched | ProgramNotFound | LaunchFault string

datatype term_step = TermSent | GetpgidRaises | KillpgRaises

datatype grace_step = GraceExited | GraceExpired | GraceRaises

record world =
  environ :: "string \<rightharpoonup> string"
  run_id :: string
  launch :: launch_result
  stdout_lines :: "string list"
  stderr_text :: string
  poll :: "nat \<Rightarrow> int option"
  elapsed :: "nat \<Rightarrow> rat"
  term_step :: term_step
  grace_step :: grace_step
  reader_handled :: "nat option"
  reader_torn :: bool
  stream_log_exists :: bool
  stderr_log_exists :: bool

section \<open>Termination of the process group\<close>

text \<open>
  \<^verbatim>\<open>_kill_process_group(proc, grace_seconds)\<close> as the list of the signals it sends and the
  waits it makes, in order.  \<open>SigtermGroup\<close> and \<open>SigkillGroup\<close> are \<^verbatim>\<open>os.killpg\<close> with
  \<^verbatim>\<open>SIGTERM\<close> and \<^verbatim>\<open>SIGKILL\<close>; \<open>SigkillChild\<close> is \<^verbatim>\<open>proc.kill()\<close>, which signals the
  child alone.  The first \<^verbatim>\<open>try\<close> can leave through \<^verbatim>\<open>TimeoutExpired\<close> (the wait ran
  out) or through any other exception (from \<^verbatim>\<open>os.getpgid\<close>, \<^verbatim>\<open>os.killpg\<close> or the wait).
\<close>

datatype sig_action = SigtermGroup | WaitFor nat | SigkillGroup | SigkillChild

definition kill_process_group :: "world \<Rightarrow> nat \<Rightarrow> sig_action list" where
  "kill_process_group w grace_seconds =
     (case term_step w of
        GetpgidRaises \<Rightarrow> [SigkillChild]
      | KillpgRaises \<Rightarrow> [SigkillChild]
      | TermSent \<Rightarrow>
          (case grace_step w of
             GraceExited \<Rightarrow> [SigtermGroup, WaitFor grace_seconds]
           | GraceExpired \<Rightarrow> [SigtermGroup, WaitFor grace_seconds, SigkillGroup, WaitFor 2]
           | GraceRaises \<Rightarrow> [SigtermGroup, WaitFor grace_seconds, SigkillChild]))"

section \<open>The polling loop\<close>

text \<open>
  Lines 272 to 278.  Pass \<open>i\<close> of the loop leaves with the exit code when the child has
  exited, kills the group when more than \<open>timeout\<close> seconds have elapsed, and sleeps
  otherwise.  The loop has no bound of its own, hence the \<open>option\<close>.
\<close>

datatype supervision = Completed int | TimedOut "sig_action list"

partial_function (option) wait_loop :: "world \<Rightarrow> int \<Rightarrow> nat \<Rightarrow> supervision option" where
  "wait_loop w timeout i =
     (case poll w i of
        Some rc \<Rightarrow> Some (Completed rc)
      | None \<Rightarrow>
          if elapsed w i > of_int timeout then Some (TimedOut (kill_process_group w 5))
          else wait_loop w timeout (Suc i))"

section \<open>The result dictionary\<close>

record artifacts =
  art_run_id :: string
  art_stream_log :: "string option"
  art_stdout_log :: string
  art_stderr_log :: string

record outcome =
  success :: bool
  result :: json
  session_id :: json
  error :: "string option"
  artifacts :: artifacts

record run_args =
  task :: string
  timeout :: int
  stream_progress :: bool

definition artifacts_dir :: string where
  "artifacts_dir = ''/tmp/glm-native-subagent''"

definition log_path :: "string \<Rightarrow> string \<Rightarrow> string" where
  "log_path rid suffix = artifacts_dir @ ''/run_'' @ rid @ suffix"

definition stream_log_path :: "run_args \<Rightarrow> world \<Rightarrow> string option" where
  "stream_log_path args w =
     (if stream_progress args then Some (log_path (run_id w) ''.stream.jsonl'') else None)"

text \<open>Lines 176 to 187.\<close>

definition initial_result :: "run_args \<Rightarrow> world \<Rightarrow> outcome" where
  "initial_result args w =
     \<lparr>success = False, result = JStr [], session_id = JNull, error = None,
      artifacts = \<lparr>art_run_id = run_id w,
                   art_stream_log = stream_log_path args w,
                   art_stdout_log = log_path (run_id w) ''.stdout.txt'',
                   art_stderr_log = log_path (run_id w) ''.stderr.txt''\<rparr>\<rparr>"

section \<open>Reconciliation\<close>

text \<open>
  \<^verbatim>\<open>str(e)\<close> in the handler \<^verbatim>\<open>except Exception as e\<close>.  Of the exceptions modelled only
  \<^verbatim>\<open>AttributeError\<close> is raised inside the \<^verbatim>\<open>try\<close> of the main thread; the texts of
  the others are not represented.
\<close>

fun exn_text :: "py_exn \<Rightarrow> string" where
  "exn_text (ValueError m) = m"
| "exn_text (AttributeError m) = m"
| "exn_text e = []"

text \<open>
  Lines 308 to 317: the fallback reads the stream log again; the bare \<^verbatim>\<open>except\<close> skips
  every line that does not decode or has no \<^verbatim>\<open>get\<close>.
\<close>

definition rescan_line :: "(string \<Rightarrow> json option) \<Rightarrow> json \<Rightarrow> string \<Rightarrow> json" where
  "rescan_line loads last_result line =
     (case loads (strip line) of
        None \<Rightarrow> last_result
      | Some ev \<Rightarrow>
          (case py_get ev ''type'' JNull of
             Inl e \<Rightarrow> last_result
           | Inr t \<Rightarrow> if py_eq t (JStr ''result'') then ev else last_result))"

definition rescan :: "(string \<Rightarrow> json option) \<Rightarrow> string list \<Rightarrow> json" where
  "rescan loads lns = foldl (rescan_line loads) JNull lns"

text \<open>
  Lines 303 to 305, 319 to 321 and 331 to 333: success is set first, then the two
  fields are read with \<^verbatim>\<open>get\<close>; an exception there reaches the handler of line 346
  with success already set.
\<close>

definition take_payload :: "json \<Rightarrow> outcome \<Rightarrow> outcome" where
  "take_payload ev r =
     (case py_get ev ''result'' (JStr []) of
        Inl e \<Rightarrow> r\<lparr>success := True, error := Some (exn_text e)\<rparr>
      | Inr v \<Rightarrow>
          (case py_get ev ''session_id'' JNull of
             Inl e \<Rightarrow> r\<lparr>success := True, result := py_or v (JStr []), error := Some (exn_text e)\<rparr>
           | Inr sid \<Rightarrow> r\<lparr>success := True, result := py_or v (JStr []), session_id := sid\<rparr>))"

definition no_result_text :: "string option \<Rightarrow> string" where
  "no_result_text p =
     ''(no result event; see '' @ (case p of None \<Rightarrow> ''None'' | Some q \<Rightarrow> q) @ '')''"

definition exit_code_text :: "int \<Rightarrow> string" where
  "exit_code_text rc = ''Exit code: '' @ str_int rc"

text \<open>
  Lines 338 to 341: the text of the standard-error log, empty when the file is gone.
  The file holds what the child wrote to standard error (lines 281 to 285).
\<close>

definition stderr_log_text :: "world \<Rightarrow> string" where
  "stderr_log_text w = (if stderr_log_exists w then stderr_text w else [])"

text \<open>
  Lines 299 to 342, for the exit code \<open>rc\<close>, the state \<open>st\<close> the reader has reached and the
  result dictionary \<open>r\<close> so far.  The log files are read back as they were written.
\<close>

definition parse_result :: "(string \<Rightarrow> json option) \<Rightarrow> run_args \<Rightarrow> world \<Rightarrow> int
                            \<Rightarrow> drain_state \<Rightarrow> outcome \<Rightarrow> outcome" where
  "parse_result loads args w rc st r =
     (if rc = 0 then
        (if stream_progress args then
           (if truthy (final_result_event st) then take_payload (final_result_event st) r
            else
              (let last_result = (if stream_log_exists w then rescan loads (stream_log st)
                                  else JNull)
               in if truthy last_result then take_payload last_result r
                  else r\<lparr>success := True,
                         result := JStr (no_result_text (stream_log_path args w))\<rparr>))
         else
           (let stdout_text = concat (stdout_log st)
            in case loads stdout_text of
                 Some output \<Rightarrow> take_payload output r
               | None \<Rightarrow> r\<lparr>success := True, result := JStr stdout_text\<rparr>))
      else
        (let err_text = stderr_log_text w
         in r\<lparr>error := Some (strip (if strip err_text \<noteq> [] then strip err_text
                                      else exit_code_text rc))\<rparr>))"

section \<open>The supervised run\<close>

text \<open>
  What the reader thread has done when the supervisor reads its markers.  With
  \<open>reader_handled w = None\<close> it has reached the end of the stream (or died on the way).
  With \<open>Some k\<close> the join ran out after \<open>k\<close> lines; \<open>reader_torn\<close> says that line
  \<open>k + 1\<close> was already written to the logs, but not yet looked at, when the supervisor
  closed them.
\<close>

definition reader_view :: "(string \<Rightarrow> json option) \<Rightarrow> bool \<Rightarrow> world \<Rightarrow> drain_state" where
  "reader_view loads sp w =
     (case reader_handled w of
        None \<Rightarrow> fst (read_stdout loads sp (stdout_lines w) drain_init)
      | Some k \<Rightarrow>
          (case read_stdout loads sp (take k (stdout_lines w)) drain_init of
             (st, Some e) \<Rightarrow> st
           | (st, None) \<Rightarrow>
               if reader_torn w \<and> k < length (stdout_lines w)
               then log_line sp (stdout_lines w ! k) st else st))"

definition timeout_text :: "int \<Rightarrow> string" where
  "timeout_text t = ''Timeout after '' @ str_int t @ ''s''"

definition not_found_text :: string where
  "not_found_text = ''Claude CLI not found. Install: npm install -g @anthropic-ai/claude-code''"

text \<open>
  The \<^verbatim>\<open>try\<close> statement of lines 207 to 351.  The flag says whether the function
  returned from inside it (line 297), which skips the summary of lines 354 to 361.
\<close>

definition run_try :: "(string \<Rightarrow> json option) \<Rightarrow> run_args \<Rightarrow> world \<Rightarrow> (bool \<times> outcome) option" where
  "run_try loads args w =
     (case launch w of
        ProgramNotFound \<Rightarrow> Some (False, (initial_result args w)\<lparr>error := Some not_found_text\<rparr>)
      | LaunchFault m \<Rightarrow> Some (False, (initial_result args w)\<lparr>error := Some m\<rparr>)
      | Launched \<Rightarrow>
          (case wait_loop w (timeout args) 0 of
             None \<Rightarrow> None
           | Some (TimedOut sigs) \<Rightarrow>
               Some (True, (initial_result args w)\<lparr>error := Some (timeout_text (timeout args))\<rparr>)
           | Some (Completed rc) \<Rightarrow>
               Some (False, parse_result loads args w rc
                              (reader_view loads (stream_progress args) w)
                              (initial_result args w))))"

text \<open>
  \<^verbatim>\<open>run_subagent\<close>: \<^verbatim>\<open>_build_env()\<close> is called before the \<^verbatim>\<open>try\<close>, the summary after
  it.  \<open>Inl\<close> is an exception that leaves the function.
\<close>

definition run_subagent :: "(string \<Rightarrow> json option) \<Rightarrow> run_args \<Rightarrow> world
                            \<Rightarrow> (py_exn + outcome) option" where
  "run_subagent loads args w =
     (case build_env (environ w) of
        Inl e \<Rightarrow> Some (Inl e)
      | Inr env \<Rightarrow>
          (case run_try loads args w of
             None \<Rightarrow> None
           | Some (returned, r) \<Rightarrow>
               if returned then Some (Inr r)
               else if success r then
                 (case safe_truncate (result r) 200 of
                    Inl e \<Rightarrow> Some (Inl e)
                  | Inr preview \<Rightarrow> Some (Inr r))
               else Some (Inr r)))"

section \<open>The two entry points\<close>

text \<open>
  A direct call of \<^verbatim>\<open>run_subagent\<close> may leave out \<^verbatim>\<open>timeout\<close> and
  \<^verbatim>\<open>stream_progress\<close>; the signature supplies 600 and \<^verbatim>\<open>False\<close>.
\<close>

definition run_subagent_call :: "(string \<Rightarrow> json option) \<Rightarrow> string \<Rightarrow> int option \<Rightarrow> bool option
                                 \<Rightarrow> world \<Rightarrow> (py_exn + outcome) option" where
  "run_subagent_call loads tsk timeout_kw stream_kw w =
     run_subagent loads
       \<lparr>task = tsk,
        timeout = (case timeout_kw of None \<Rightarrow> 600 | Some t \<Rightarrow> t),
        stream_progress = (case stream_kw of None \<Rightarrow> False | Some b \<Rightarrow> b)\<rparr> w"

text \<open>
  \<^verbatim>\<open>main()\<close> after \<^verbatim>\<open>parse_args\<close>: \<^verbatim>\<open>--timeout\<close> defaults to 120 and is always passed
  on.  The process ends by printing the JSON line and calling \<^verbatim>\<open>sys.exit\<close>, or with
  an uncaught exception.
\<close>

record cli =
  cli_task :: string
  cli_timeout :: "int option"
  cli_stream :: bool

datatype proc_end = Exited json int | Uncaught py_exn

definition parsed_timeout :: "cli \<Rightarrow> int" where
  "parsed_timeout c = (case cli_timeout c of None \<Rightarrow> 120 | Some t \<Rightarrow> t)"

definition result_line :: "outcome \<Rightarrow> json" where
  "result_line r =
     JObj [(''success'', JBool (success r)),
           (''result'', result r),
           (''error'', (case error r of None \<Rightarrow> JNull | Some m \<Rightarrow> JStr m))]"

text \<open>Lines 393 and 394, or the traceback of an exception nobody caught.\<close>

fun finish :: "(py_exn + outcome) option \<Rightarrow> proc_end option" where
  "finish None = None"
| "finish (Some (Inl e)) = Some (Uncaught e)"
| "finish (Some (Inr r)) = Some (Exited (result_line r) (if success r then 0 else 1))"

definition main :: "(string \<Rightarrow> json option) \<Rightarrow> cli \<Rightarrow> world \<Rightarrow> proc_end option" where
  "main loads c w =
     finish (run_subagent_call loads (cli_task c) (Some (parsed_timeout c))
               (Some (cli_stream c)) w)"

section \<open>Notions of the specification\<close>

text \<open>
  The events of a log that the fallback is after, in the words of the specification:
  the lines that decode to an object tagged \<^verbatim>\<open>result\<close>, in the order of the log.
\<close>

fun is_result_event :: "json \<Rightarrow> bool" where
  "is_result_event (JObj kvs) = (map_of kvs ''type'' = Some (JStr ''result''))"
| "is_result_event v = False"

definition result_events :: "(string \<Rightarrow> json option) \<Rightarrow> string list \<Rightarrow> json list" where
  "result_events loads lns = filter is_result_event (List.map_filter (\<lambda>l. loads (strip l)) lns)"










section \<open>Example runs\<close>

text \<open>
  A decoder that knows a handful of texts, standing for \<^verbatim>\<open>json.loads\<close> on them (which
  ignores surrounding white space), and a world in which the child prints nothing and
  exits with code 0 at the third pass of the polling loop.
\<close>

definition line_done :: string where
  \<open>line_done = ''{"result": "done", "session_id": "abc"}''\<close>

definition line_read :: string where
  \<open>line_read = ''{"type":"assistant","message":{"content":[{"type":"tool_use","name":"Read"}]}}''\<close>

definition line_ok :: string where
  \<open>line_ok = ''{"type":"result","result":"ok"}''\<close>

definition line_42 :: string where
  \<open>line_42 = ''42''\<close>

definition line_five :: string where
  \<open>line_five = ''{"result": 5}''\<close>

definition line_result_five :: string where
  \<open>line_result_five = ''{"type":"result","result":5}''\<close>

definition line_null :: string where
  \<open>line_null = ''{"result": null}''\<close>

definition demo_table :: "(string \<times> json) list" where
  "demo_table =
     [(line_done, JObj [(''result'', JStr ''done''), (''session_id'', JStr ''abc'')]),
      (line_read, JObj [(''type'', JStr ''assistant''),
                        (''message'', JObj [(''content'',
                           JArr [JObj [(''type'', JStr ''tool_use''), (''name'', JStr ''Read'')]])])]),
      (line_ok, JObj [(''type'', JStr ''result''), (''result'', JStr ''ok'')]),
      (line_42, JInt 42),
      (line_five, JObj [(''result'', JInt 5)]),
      (line_result_five, JObj [(''type'', JStr ''result''), (''result'', JInt 5)]),
      (line_null, JObj [(''result'', JNull)])]"

definition demo_loads :: "string \<Rightarrow> json option" where
  "demo_loads s = map_of demo_table (strip s)"

definition nl :: "string \<Rightarrow> string" where
  "nl s = s @ [CHR 0x0A]"

definition demo_world :: world where
  "demo_world =
     \<lparr>environ = [''ZAI_API_KEY'' \<mapsto> ''key''],
      run_id = ''0123456789'',
      launch = Launched,
      stdout_lines = [],
      stderr_text = [],
      poll = (\<lambda>i. if i < 2 then None else Some 0),
      elapsed = (\<lambda>i. of_nat i / 10),
      term_step = TermSent,
      grace_step = GraceExpired,
      reader_handled = None,
      reader_torn = False,
      stream_log_exists = True,
      stderr_log_exists = True\<rparr>"

definition demo_args :: run_args where
  "demo_args = \<lparr>task = ''list files'', timeout = 120, stream_progress = False\<rparr>"


text \<open>
  The scenarios of the specification: a child that answers with one JSON document, one
  that fails with exit code 2 and a message on standard error, and one that prints a
  terminal event and then sleeps beyond a timeout of one second.
\<close>

definition scenario_done :: world where
  "scenario_done = demo_world\<lparr>stdout_lines := [nl line_done]\<rparr>"








text \<open>
  Streaming runs.  In \<open>scenario_lost\<close> the reader thread has written the terminal
  event to the logs but not yet recorded it when the supervisor stops waiting for it.
\<close>

definition stream_args :: run_args where
  "stream_args = \<lparr>task = ''list files'', timeout = 120, stream_progress = True\<rparr>"



text \<open>A streaming child that prints the number 42 on a line of its own before its terminal event.\<close>

definition lines_42_ok :: "string list" where
  "lines_42_ok = [nl line_42, nl line_ok]"

definition scenario_scalar :: world where
  "scenario_scalar = demo_world\<lparr>stdout_lines := lines_42_ok\<rparr>"






section \<open>Auxiliary facts\<close>

text \<open>Comparison with a text, white space, and the polling loop.\<close>

lemma py_eq_JStr [simp]: "py_eq v (JStr s) = (v = JStr s)"
  by (cases v) auto







lemma digits_nonempty: "digits n \<noteq> []"
  by (induction n rule: digits.induct) (subst digits.simps, simp)



section \<open>Default timeouts of the two entry points\<close>

text \<open>
  C10.  A direct call of \<^verbatim>\<open>run_subagent\<close> that gives no timeout runs with 600 seconds.
  The command line without \<^verbatim>\<open>--timeout\<close> runs with 120 seconds: the parser fills in
  120 and \<^verbatim>\<open>main\<close> always passes the parsed value on, so the 600 of the signature is never
  used from the command line and the 120 never reaches a direct call.
\<close>

theorem default_timeouts_differ:
  "run_subagent_call loads tsk None sk w =
     run_subagent loads \<lparr>task = tsk, timeout = 600,
                         stream_progress = (case sk of None \<Rightarrow> False | Some b \<Rightarrow> b)\<rparr> w
   \<and> parsed_timeout (c\<lparr>cli_timeout := None\<rparr>) = 120
   \<and> main loads (c\<lparr>cli_timeout := None\<rparr>) w =
       finish (run_subagent loads \<lparr>task = cli_task c, timeout = 120,
                                   stream_progress = cli_stream c\<rparr> w)
   \<and> main loads (c\<lparr>cli_timeout := Some t\<rparr>) w =
       finish (run_subagent loads \<lparr>task = cli_task c, timeout = t,
                                   stream_progress = cli_stream c\<rparr> w)"
  by (simp add: run_subagent_call_def parsed_timeout_def main_def)

section \<open>Facts about the run\<close>

text \<open>The branches of the \<^verbatim>\<open>try\<close> statement, one lemma each.\<close>

lemma take_payload_success: "success (take_payload ev r)"
  by (simp add: take_payload_def split: sum.splits)

lemma parse_result_zero: "success (parse_result loads args w 0 st r)"
  by (simp add: parse_result_def Let_def take_payload_success split: option.splits)

lemma parse_result_nonzero:
  "rc \<noteq> 0 \<Longrightarrow> parse_result loads args w rc st r =
     r\<lparr>error := Some (strip (if strip (stderr_log_text w) \<noteq> [] then strip (stderr_log_text w)
                                  else exit_code_text rc))\<rparr>"
  by (simp add: parse_result_def Let_def)


lemma run_try_not_found:
  "launch w = ProgramNotFound \<Longrightarrow>
   run_try loads args w = Some (False, (initial_result args w)\<lparr>error := Some not_found_text\<rparr>)"
  by (simp add: run_try_def)

lemma run_try_fault:
  "launch w = LaunchFault m \<Longrightarrow>
   run_try loads args w = Some (False, (initial_result args w)\<lparr>error := Some m\<rparr>)"
  by (simp add: run_try_def)

lemma run_try_timed_out:
  "launch w = Launched \<Longrightarrow> wait_loop w (timeout args) 0 = Some (TimedOut sigs) \<Longrightarrow>
   run_try loads args w =
     Some (True, (initial_result args w)\<lparr>error := Some (timeout_text (timeout args))\<rparr>)"
  by (simp add: run_try_def)

lemma run_try_completed:
  "launch w = Launched \<Longrightarrow> wait_loop w (timeout args) 0 = Some (Completed rc) \<Longrightarrow>
   run_try loads args w =
     Some (False, parse_result loads args w rc (reader_view loads (stream_progress args) w)
                    (initial_result args w))"
  by (simp add: run_try_def)

lemma run_try_stuck:
  "launch w = Launched \<Longrightarrow> wait_loop w (timeout args) 0 = None \<Longrightarrow> run_try loads args w = None"
  by (simp add: run_try_def)

lemma run_try_settled:
  assumes "run_try loads args w = Some (b, r)"
  shows "success r \<or> error r \<noteq> None"
proof (cases "launch w")
  case Launched
  show ?thesis
  proof (cases "wait_loop w (timeout args) 0")
    case None
    with Launched assms show ?thesis by (simp add: run_try_stuck)
  next
    case (Some sv)
    show ?thesis
    proof (cases sv)
      case (Completed rc)
      with Launched Some assms
      have r: "r = parse_result loads args w rc (reader_view loads (stream_progress args) w)
                    (initial_result args w)"
        by (simp add: run_try_completed)
      show ?thesis
      proof (cases "rc = 0")
        case True
        then show ?thesis using r parse_result_zero by simp
      next
        case False
        then show ?thesis using r by (simp add: parse_result_nonzero)
      qed
    next
      case (TimedOut sigs)
      with Launched Some assms show ?thesis by (auto simp: run_try_timed_out)
    qed
  qed
next
  case ProgramNotFound
  with assms show ?thesis by (auto simp: run_try_not_found)
next
  case (LaunchFault m)
  with assms show ?thesis by (auto simp: run_try_fault)
qed


lemma run_subagent_returns:
  assumes "run_subagent loads args w = Some (Inr r)"
  shows "\<exists>b. run_try loads args w = Some (b, r)"
proof (cases "build_env (environ w)")
  case (Inl e)
  with assms show ?thesis by (simp add: run_subagent_def)
next
  case (Inr env)
  show ?thesis
  proof (cases "run_try loads args w")
    case None
    with Inr assms show ?thesis by (simp add: run_subagent_def)
  next
    case (Some p)
    obtain b r' where p: "p = (b, r')" by (cases p)
    with Inr Some assms have "r' = r"
      by (simp add: run_subagent_def split: if_splits sum.splits)
    with Some p show ?thesis by simp
  qed
qed

lemma safe_truncate_text: "\<exists>p. safe_truncate (JStr t) n = Inr p"
  by simp



lemma run_subagent_text:
  "build_env (environ w) = Inr env \<Longrightarrow> run_try loads args w = Some (False, r)
   \<Longrightarrow> result r = JStr t \<Longrightarrow> run_subagent loads args w = Some (Inr r)"
  by (simp add: run_subagent_def)



text \<open>Evaluation of the example runs.\<close>

lemma build_env_ok:
  "env_or (e ''ANTHROPIC_AUTH_TOKEN'') (e ''ZAI_API_KEY'') = Some (c # cs) \<Longrightarrow>
   \<exists>env. build_env e = Inr env"
  by (simp add: build_env_def Let_def)

lemma demo_token: "env_or (environ demo_world ''ANTHROPIC_AUTH_TOKEN'') (environ demo_world ''ZAI_API_KEY'') = Some ''key''"
  by (simp add: demo_world_def env_or_def)


lemmas line_defs = line_done_def line_read_def line_ok_def line_42_def line_five_def
  line_result_five_def line_null_def

lemma loads_done: "demo_loads (nl line_done) = Some (JObj [(''result'', JStr ''done''), (''session_id'', JStr ''abc'')])"
  by (simp add: demo_loads_def demo_table_def nl_def line_defs strip_def py_isspace_def)

lemma nonstreaming_log:
  "read_stdout loads False ls st = (st\<lparr>stdout_log := stdout_log st @ ls\<rparr>, None)"
  by (induction ls arbitrary: st) (simp_all add: parse_line_def log_line_def)

lemma captured_all:
  "reader_handled w = None \<Longrightarrow> stdout_log (reader_view loads False w) = stdout_lines w"
  by (simp add: reader_view_def nonstreaming_log drain_init_def)

lemma wait_demo_done: "wait_loop scenario_done (timeout demo_args) 0 = Some (Completed 0)"
  by (simp add: wait_loop.simps scenario_done_def demo_world_def demo_args_def)

lemma run_try_done:
  "run_try demo_loads demo_args scenario_done =
     Some (False, (initial_result demo_args scenario_done)
                    \<lparr>success := True, result := JStr ''done'', session_id := JStr ''abc''\<rparr>)"
proof -
  have l: "launch scenario_done = Launched" by (simp add: scenario_done_def demo_world_def)
  have c: "stdout_log (reader_view demo_loads False scenario_done) = [nl line_done]"
    by (simp add: captured_all scenario_done_def demo_world_def)
  have s: "stream_progress demo_args = False" by (simp add: demo_args_def)
  show ?thesis
    by (simp add: run_try_completed [OF l wait_demo_done] parse_result_def s c loads_done
        take_payload_def py_or_def)
qed


section \<open>The outcome is a success or carries an error\<close>

text \<open>
  C1.  Whenever \<^verbatim>\<open>run_subagent\<close> hands back a result dictionary, exactly one of the
  two holds: success is true, or success is false and the error is not \<^verbatim>\<open>None\<close>.  This
  covers streaming or not, timeout or not, every exit code, a failed launch and an
  exception caught inside the \<^verbatim>\<open>try\<close>.
\<close>

theorem outcome_success_xor_error:
  assumes "run_subagent loads args w = Some (Inr r)"
  shows "(success r \<or> (\<not> success r \<and> error r \<noteq> None))
         \<and> \<not> (success r \<and> (\<not> success r \<and> error r \<noteq> None))"
proof -
  from run_subagent_returns [OF assms] obtain b where "run_try loads args w = Some (b, r)" ..
  from run_try_settled [OF this] show ?thesis by auto
qed


theorem outcome_success_xor_error_witness:
  "run_subagent demo_loads demo_args scenario_done =
     Some (Inr ((initial_result demo_args scenario_done)
                  \<lparr>success := True, result := JStr ''done'', session_id := JStr ''abc''\<rparr>))
   \<and> success ((initial_result demo_args scenario_done)
                  \<lparr>success := True, result := JStr ''done'', session_id := JStr ''abc''\<rparr>)"
proof -
  let ?r = "(initial_result demo_args scenario_done)
              \<lparr>success := True, result := JStr ''done'', session_id := JStr ''abc''\<rparr>"
  have "env_or (environ scenario_done ''ANTHROPIC_AUTH_TOKEN'')
          (environ scenario_done ''ZAI_API_KEY'') = Some ''key''"
    using demo_token by (simp add: scenario_done_def)
  then obtain env where e: "build_env (environ scenario_done) = Inr env"
    using build_env_ok by blast
  have t: "result ?r = JStr ''done''" by simp
  have run: "run_subagent demo_loads demo_args scenario_done = Some (Inr ?r)"
    using e run_try_done t by (rule run_subagent_text)
  from outcome_success_xor_error [OF run] run show ?thesis by simp
qed

section \<open>A non-zero exit code is a failure\<close>




section \<open>A timeout is a failure\<close>




section \<open>Escalation of the termination signals\<close>








section \<open>Reconciliation without streaming\<close>












section \<open>Reconciliation of a streaming run without a live terminal event\<close>

text \<open>The fallback scan returns the last result event of the log.\<close>

lemma rescan_line_event:
  "rescan_line loads acc l =
     (case loads (strip l) of
        None \<Rightarrow> acc
      | Some ev \<Rightarrow> if is_result_event ev then ev else acc)"
proof (cases "loads (strip l)")
  case None
  then show ?thesis by (simp add: rescan_line_def)
next
  case (Some ev)
  then show ?thesis by (cases ev) (auto simp: rescan_line_def split: option.splits)
qed

lemma result_events_Cons:
  "result_events loads (l # ls) =
     (case loads (strip l) of
        None \<Rightarrow> result_events loads ls
      | Some ev \<Rightarrow> if is_result_event ev then ev # result_events loads ls
                   else result_events loads ls)"
  by (simp add: result_events_def List.map_filter_simps split: option.splits)

lemma result_events_Nil: "result_events loads [] = []"
  by (simp add: result_events_def List.map_filter_simps)

lemma foldl_rescan:
  "foldl (rescan_line loads) acc ls =
     (if result_events loads ls = [] then acc else last (result_events loads ls))"
proof (induction ls arbitrary: acc)
  case Nil
  then show ?case by (simp add: result_events_Nil)
next
  case (Cons l ls)
  have "foldl (rescan_line loads) acc (l # ls) =
          (if result_events loads ls = [] then rescan_line loads acc l
           else last (result_events loads ls))"
    by (simp only: foldl.simps Cons.IH)
  also have "\<dots> = (if result_events loads (l # ls) = [] then acc
                      else last (result_events loads (l # ls)))"
    by (cases "loads (strip l)") (simp_all add: rescan_line_event [of loads acc l] result_events_Cons)
  finally show ?case .
qed

lemma rescan_last:
  "rescan loads ls = (if result_events loads ls = [] then JNull else last (result_events loads ls))"
  by (simp add: rescan_def foldl_rescan)



lemma parse_result_fallback:
  assumes "stream_progress args" and "\<not> truthy (final_result_event st)"
  shows "parse_result loads args w 0 st r =
     (if truthy (rescan loads (if stream_log_exists w then stream_log st else []))
      then take_payload (rescan loads (if stream_log_exists w then stream_log st else [])) r
      else r\<lparr>success := True, result := JStr (no_result_text (stream_log_path args w))\<rparr>)"
proof -
  have "rescan loads [] = JNull" by (simp add: rescan_def)
  with assms show ?thesis by (simp add: parse_result_def Let_def)
qed

lemma loads_ok:
  "demo_loads (strip (nl line_ok)) = Some (JObj [(''type'', JStr ''result''), (''result'', JStr ''ok'')])"
  by (simp add: demo_loads_def demo_table_def nl_def line_defs strip_def py_isspace_def)








section \<open>Lines the drain cannot interpret\<close>

text \<open>
  A line that is blank or does not decode is logged and passed over; the loop goes on
  with the next line.
\<close>

lemma undecodable_line_is_skipped:
  "loads (strip l) = None \<Longrightarrow>
   read_stdout loads sp (l # ls) st = read_stdout loads sp ls (log_line sp l st)"
  by (simp add: parse_line_def Let_def)

lemma blank_line_is_skipped:
  "strip l = [] \<Longrightarrow>
   read_stdout loads sp (l # ls) st = read_stdout loads sp ls (log_line sp l st)"
  by (simp add: parse_line_def Let_def)

lemma loads_42: "demo_loads (strip (nl line_42)) = Some (JInt 42)"
  by (simp add: demo_loads_def demo_table_def nl_def line_defs strip_def py_isspace_def)

lemma strip_nl_42: "strip (nl line_42) \<noteq> []"
  by (simp add: nl_def line_defs strip_def py_isspace_def)


lemma drain_scalar:
  "read_stdout demo_loads True lines_42_ok drain_init =
     (drain_init\<lparr>stdout_log := [nl line_42], stream_log := [nl line_42]\<rparr>,
      Some (AttributeError (no_get_msg (JInt 42))))"
  by (simp add: lines_42_ok_def parse_line_def log_line_def drain_init_def strip_nl_42 loads_42
      on_event_def)

lemma run_try_scalar:
  "run_try demo_loads stream_args scenario_scalar =
     Some (False, (initial_result stream_args scenario_scalar)
        \<lparr>success := True,
         result := JStr (no_result_text (stream_log_path stream_args scenario_scalar))\<rparr>)"
proof -
  have sp: "stream_progress stream_args" by (simp add: stream_args_def)
  have l: "launch scenario_scalar = Launched" by (simp add: scenario_scalar_def demo_world_def)
  have v: "reader_view demo_loads True scenario_scalar =
             drain_init\<lparr>stdout_log := [nl line_42], stream_log := [nl line_42]\<rparr>"
    by (simp add: reader_view_def scenario_scalar_def demo_world_def drain_scalar)
  have f: "\<not> truthy (final_result_event (reader_view demo_loads True scenario_scalar))"
    by (simp add: v drain_init_def)
  have g: "rescan demo_loads (stream_log (reader_view demo_loads True scenario_scalar)) = JNull"
    by (simp add: v rescan_last result_events_Cons result_events_Nil loads_42)
  have x: "stream_log_exists scenario_scalar" by (simp add: scenario_scalar_def demo_world_def)
  have "wait_loop scenario_scalar (timeout stream_args) 0 = Some (Completed 0)"
    by (simp add: wait_loop.simps scenario_scalar_def demo_world_def stream_args_def)
  with l have "run_try demo_loads stream_args scenario_scalar =
      Some (False, parse_result demo_loads stream_args scenario_scalar 0
                     (reader_view demo_loads (stream_progress stream_args) scenario_scalar)
                     (initial_result stream_args scenario_scalar))"
    by (rule run_try_completed)
  with sp have "run_try demo_loads stream_args scenario_scalar =
      Some (False, parse_result demo_loads stream_args scenario_scalar 0
                     (reader_view demo_loads True scenario_scalar)
                     (initial_result stream_args scenario_scalar))"
    by simp
  then show ?thesis using x g by (simp add: parse_result_fallback [OF sp f])
qed

text \<open>
  C6 does not hold of the code for a line that decodes to something other than an
  object.  On the two lines \<^verbatim>\<open>42\<close> and \<^verbatim>\<open>{"type":"result","result":"ok"}\<close> the first is
  logged, \<^verbatim>\<open>event.get\<close> of line 253 raises \<^verbatim>\<open>AttributeError\<close>, which the handler for
  \<^verbatim>\<open>JSONDecodeError\<close> does not catch, and the reader ends there: the second line is
  neither logged nor interpreted.  The fallback scan of lines 311 to 317, whose bare
  \<^verbatim>\<open>except\<close> does cover this case, finds the terminal event in the same two lines.  The
  run as a whole reports the placeholder instead of the child's result.
\<close>

theorem scalar_line_ends_the_drain:
  "read_stdout demo_loads True lines_42_ok drain_init =
     (drain_init\<lparr>stdout_log := [nl line_42], stream_log := [nl line_42]\<rparr>,
      Some (AttributeError (no_get_msg (JInt 42))))
   \<and> rescan demo_loads lines_42_ok = JObj [(''type'', JStr ''result''), (''result'', JStr ''ok'')]
   \<and> run_subagent demo_loads stream_args scenario_scalar =
       Some (Inr ((initial_result stream_args scenario_scalar)
          \<lparr>success := True,
           result := JStr ''(no result event; see /tmp/glm-native-subagent/run_0123456789.stream.jsonl)''\<rparr>))"
proof -
  have b: "rescan demo_loads lines_42_ok = JObj [(''type'', JStr ''result''), (''result'', JStr ''ok'')]"
    by (simp add: rescan_last lines_42_ok_def result_events_Cons result_events_Nil loads_42 loads_ok)
  have "env_or (environ scenario_scalar ''ANTHROPIC_AUTH_TOKEN'')
          (environ scenario_scalar ''ZAI_API_KEY'') = Some ''key''"
    using demo_token by (simp add: scenario_scalar_def)
  then obtain env where e: "build_env (environ scenario_scalar) = Inr env"
    using build_env_ok by blast
  have "run_subagent demo_loads stream_args scenario_scalar =
     Some (Inr ((initial_result stream_args scenario_scalar)
        \<lparr>success := True,
         result := JStr (no_result_text (stream_log_path stream_args scenario_scalar))\<rparr>))"
    using e run_try_scalar by (rule run_subagent_text) simp
  moreover have "no_result_text (stream_log_path stream_args scenario_scalar) =
      ''(no result event; see /tmp/glm-native-subagent/run_0123456789.stream.jsonl)''"
    by (simp add: no_result_text_def stream_log_path_def stream_args_def log_path_def
        artifacts_dir_def scenario_scalar_def demo_world_def)
  ultimately show ?thesis using drain_scalar b by simp
qed

section \<open>Progress notifications for tool invocations\<close>





























section \<open>The result line of the command-line entry point\<close>






















end
